theory Spec2Isabelle
  imports Main
begin

section \<open>Values, references and the object store\<close>

text \<open>
  \<^verbatim>\<open>src/entt/core/compressed_pair.hpp\<close> is a class template over two element types
  \<^verbatim>\<open>First\<close> and \<^verbatim>\<open>Second\<close>. The element types are type variables here, and a C++ value
  of such a type is a HOL value: two values compare equal when they are the same HOL value.
  What the header needs of an element type, and does not define itself, is passed to the
  model as a parameter:
  \<^item> \<^verbatim>\<open>is_ebco_eligible_v<Type>\<close> (declared in \<^verbatim>\<open>type_traits.hpp\<close>) is a \<open>bool\<close>;
  \<^item> \<^verbatim>\<open>Type{}\<close> together with \<^verbatim>\<open>std::is_default_constructible_v<Type>\<close> is an
    \<open>'a option\<close>: \<open>None\<close> for a type that is not default constructible, \<open>Some d\<close> for one
    whose value-initialised object is \<open>d\<close>;
  \<^item> \<^verbatim>\<open>Type{std::forward<Args>(args)}\<close> is a function \<open>'x \<Rightarrow> 'a\<close>, the constructor of
    \<^verbatim>\<open>Type\<close> that takes one \<^verbatim>\<open>Args\<close>;
  \<^item> \<^verbatim>\<open>Type{std::get<Index>(args)...}\<close> is a function from the list of the argument
    expressions, in their order and each with its value category, to \<open>'a option\<close>:
    \<open>None\<close> when \<^verbatim>\<open>Type\<close> has no constructor that accepts them (the initialisation is
    ill-formed), \<open>Some v\<close> for the object that the selected constructor builds.

  A C++ reference \<^verbatim>\<open>T &\<close> into a program state \<open>'s\<close> is a pair of a reader and a writer;
  a \<^verbatim>\<open>const T &\<close> is the reader alone.
\<close>

record ('s, 'v) reference =
  rd :: "'s \<Rightarrow> 'v"
  wr :: "'v \<Rightarrow> 's \<Rightarrow> 's"

type_synonym ('s, 'v) const_reference = "'s \<Rightarrow> 'v"

text \<open>
  Copy or move construction of a \<^verbatim>\<open>Type\<close> from a \<^verbatim>\<open>Type\<close> (the constructor that
  \<^verbatim>\<open>Type{std::forward<Type>(x)}\<close> and the implicitly defined copy operations select)
  yields an equal value.
\<close>

definition copy_init :: "'v \<Rightarrow> 'v" where
  "copy_init x = x"

text \<open>
  \<^verbatim>\<open>std::swap(a, b)\<close>, which \<^verbatim>\<open>using std::swap; swap(a, b)\<close> selects unless the
  element type brings its own: \<^verbatim>\<open>T tmp(std::move(a)); a = std::move(b); b = std::move(tmp);\<close>
\<close>

definition std_swap :: "('s, 'v) reference \<Rightarrow> ('s, 'v) reference \<Rightarrow> 's \<Rightarrow> 's" where
  "std_swap a b s =
     (let tmp = copy_init (rd a s);
          s1 = wr a (copy_init (rd b s)) s;
          s2 = wr b (copy_init tmp) s1
      in s2)"

text \<open>
  An argument expression has a value category. A component of a \<^verbatim>\<open>std::tuple<Args...>\<close>
  has the declared type \<^verbatim>\<open>Args\<close>: an object type \<^verbatim>\<open>T\<close> (as \<^verbatim>\<open>std::make_tuple\<close> builds),
  \<^verbatim>\<open>T &\<close> or \<^verbatim>\<open>T &&\<close> (as \<^verbatim>\<open>std::forward_as_tuple\<close> builds).
\<close>

datatype category = Lvalue | Rvalue

datatype declared = Object | Lvalue_reference | Rvalue_reference

type_synonym 'x argument = "category \<times> 'x"

type_synonym 'x component = "declared \<times> 'x"

text \<open>
  The expression \<^verbatim>\<open>std::get<Index>(args)\<close> of lines 38 and 70: \<^verbatim>\<open>args\<close> is the name of
  the constructor's by-value parameter, so the expression is an lvalue whatever the declared
  type of the component.
\<close>

definition named_lvalue :: "'x component \<Rightarrow> 'x argument" where
  "named_lvalue c = (Lvalue, snd c)"

text \<open>
  \<^verbatim>\<open>std::forward<Args>(std::get<Index>(args))\<close>, which is what forwarding a component
  means (the class comment of the piecewise constructor, line 150, and the two-value
  constructor, lines 145-146): an lvalue for \<^verbatim>\<open>T &\<close>, an rvalue otherwise. Lines 38 and
  70 do not call it.
\<close>

definition std_forward :: "'x component \<Rightarrow> 'x argument" where
  "std_forward c =
     (case fst c of
        Object \<Rightarrow> (Rvalue, snd c)
      | Lvalue_reference \<Rightarrow> (Lvalue, snd c)
      | Rvalue_reference \<Rightarrow> (Rvalue, snd c))"

text \<open>
  A \<^verbatim>\<open>std::tuple<Args...>\<close> is the list of its components.
  \<^verbatim>\<open>std::index_sequence_for<Args...>\<close> is \<open>0, ..., sizeof...(Args) - 1\<close>, and
  \<^verbatim>\<open>std::get<Index>(args)\<close> is ill-formed for an index that is out of range: \<open>None\<close>.
\<close>

definition index_sequence_for :: "'x list \<Rightarrow> nat list" where
  "index_sequence_for args = [0..<length args]"

definition std_get :: "nat \<Rightarrow> 'x list \<Rightarrow> 'x option" where
  "std_get Index args = (if Index < length args then Some (args ! Index) else None)"

text \<open>The pack expansion \<^verbatim>\<open>std::get<Index>(args)...\<close>, left to right.\<close>

definition get_pack :: "'x list \<Rightarrow> nat list \<Rightarrow> 'x list option" where
  "get_pack args Index = those (map (\<lambda>i. std_get i args) Index)"

section \<open>\<^verbatim>\<open>internal::compressed_pair_element\<close>\<close>

text \<open>
  The primary template holds the element in its data member \<^verbatim>\<open>value\<close> (\<open>Boxed\<close>); the
  specialisation for \<^verbatim>\<open>is_ebco_eligible_v<Type>\<close> derives from \<^verbatim>\<open>Type\<close> and holds it as
  its base class subobject (\<open>Merged\<close>).
\<close>

datatype 'a compressed_pair_element = Boxed 'a | Merged 'a

subsection \<open>The primary template (lines 24-51)\<close>

definition boxed_default :: "'a option \<Rightarrow> 'a compressed_pair_element option" where
  "boxed_default dflt = (case dflt of None \<Rightarrow> None | Some d \<Rightarrow> Some (Boxed d))"

definition boxed_forward :: "('x \<Rightarrow> 'a) \<Rightarrow> 'x \<Rightarrow> 'a compressed_pair_element" where
  "boxed_forward conv args = Boxed (conv args)"

definition boxed_piecewise ::
  "('x argument list \<Rightarrow> 'a option) \<Rightarrow> 'x component list \<Rightarrow> nat list \<Rightarrow>
   'a compressed_pair_element option" where
  "boxed_piecewise init args Index =
     (case get_pack args Index of
        None \<Rightarrow> None
      | Some xs \<Rightarrow>
          (case init (map named_lvalue xs) of None \<Rightarrow> None | Some v \<Rightarrow> Some (Boxed v)))"

subsection \<open>The specialisation for \<^verbatim>\<open>is_ebco_eligible_v<Type>\<close> (lines 54-80)\<close>

definition merged_default :: "'a option \<Rightarrow> 'a compressed_pair_element option" where
  "merged_default dflt = (case dflt of None \<Rightarrow> None | Some d \<Rightarrow> Some (Merged d))"

definition merged_forward :: "('x \<Rightarrow> 'a) \<Rightarrow> 'x \<Rightarrow> 'a compressed_pair_element" where
  "merged_forward conv args = Merged (conv args)"

definition merged_piecewise ::
  "('x argument list \<Rightarrow> 'a option) \<Rightarrow> 'x component list \<Rightarrow> nat list \<Rightarrow>
   'a compressed_pair_element option" where
  "merged_piecewise init args Index =
     (case get_pack args Index of
        None \<Rightarrow> None
      | Some xs \<Rightarrow>
          (case init (map named_lvalue xs) of None \<Rightarrow> None | Some b \<Rightarrow> Some (Merged b)))"

subsection \<open>Template selection\<close>

text \<open>
  \<^verbatim>\<open>compressed_pair_element<Type, Tag>\<close> names the specialisation when
  \<^verbatim>\<open>is_ebco_eligible_v<Type>\<close> holds and the primary template otherwise.
\<close>

definition compressed_pair_element_default ::
  "bool \<Rightarrow> 'a option \<Rightarrow> 'a compressed_pair_element option" where
  "compressed_pair_element_default ebco dflt =
     (if ebco then merged_default dflt else boxed_default dflt)"

definition compressed_pair_element_forward ::
  "bool \<Rightarrow> ('x \<Rightarrow> 'a) \<Rightarrow> 'x \<Rightarrow> 'a compressed_pair_element" where
  "compressed_pair_element_forward ebco conv args =
     (if ebco then merged_forward conv args else boxed_forward conv args)"

definition compressed_pair_element_piecewise ::
  "bool \<Rightarrow> ('x argument list \<Rightarrow> 'a option) \<Rightarrow> 'x component list \<Rightarrow> nat list \<Rightarrow>
   'a compressed_pair_element option" where
  "compressed_pair_element_piecewise ebco init args Index =
     (if ebco then merged_piecewise init args Index else boxed_piecewise init args Index)"

text \<open>
  \<^verbatim>\<open>get()\<close>: \<^verbatim>\<open>return value;\<close> in the primary template, \<^verbatim>\<open>return *this;\<close> (the
  conversion to the base class) in the specialisation. The call runs in a state and hands
  the state on; the reference it returns reads and writes the element inside the object
  that \<open>this\<close> refers to.
\<close>

definition get ::
  "('s, 'a compressed_pair_element) reference \<Rightarrow> 's \<Rightarrow> ('s, 'a) reference \<times> 's" where
  "get this s =
     (\<lparr>rd = (\<lambda>t. case rd this t of Boxed v \<Rightarrow> v | Merged b \<Rightarrow> b),
       wr = (\<lambda>x t. wr this (case rd this t of Boxed v \<Rightarrow> Boxed x | Merged b \<Rightarrow> Merged x) t)\<rparr>,
      s)"

definition get_const ::
  "('s, 'a compressed_pair_element) const_reference \<Rightarrow> 's \<Rightarrow> ('s, 'a) const_reference \<times> 's" where
  "get_const this s = ((\<lambda>t. case this t of Boxed v \<Rightarrow> v | Merged b \<Rightarrow> b), s)"

text \<open>
  The implicitly defined copy constructor and copy assignment operator of an element:
  they copy the member, or the base class subobject.
\<close>

definition element_copy :: "'a compressed_pair_element \<Rightarrow> 'a compressed_pair_element" where
  "element_copy other =
     (case other of Boxed v \<Rightarrow> Boxed (copy_init v) | Merged b \<Rightarrow> Merged (copy_init b))"

definition element_assign ::
  "'a compressed_pair_element \<Rightarrow> 'a compressed_pair_element \<Rightarrow> 'a compressed_pair_element" where
  "element_assign this other =
     (let x = (case other of Boxed v \<Rightarrow> copy_init v | Merged b \<Rightarrow> copy_init b)
      in case this of Boxed v \<Rightarrow> Boxed x | Merged b \<Rightarrow> Merged x)"

section \<open>\<^verbatim>\<open>compressed_pair\<close>\<close>

text \<open>
  The class derives from \<^verbatim>\<open>compressed_pair_element<First, 0u>\<close> and
  \<^verbatim>\<open>compressed_pair_element<Second, 1u>\<close>: an object has the two base class subobjects
  \<open>first_base\<close> and \<open>second_base\<close>.
\<close>

record ('a, 'b) compressed_pair =
  first_base :: "'a compressed_pair_element"
  second_base :: "'b compressed_pair_element"

text \<open>\<^verbatim>\<open>static_cast<first_base &>(*this)\<close> and \<^verbatim>\<open>static_cast<second_base &>(*this)\<close>.\<close>

definition cast_first_base ::
  "('s, ('a, 'b) compressed_pair) reference \<Rightarrow> ('s, 'a compressed_pair_element) reference" where
  "cast_first_base this =
     \<lparr>rd = (\<lambda>t. first_base (rd this t)),
      wr = (\<lambda>e t. wr this ((rd this t)\<lparr>first_base := e\<rparr>) t)\<rparr>"

definition cast_second_base ::
  "('s, ('a, 'b) compressed_pair) reference \<Rightarrow> ('s, 'b compressed_pair_element) reference" where
  "cast_second_base this =
     \<lparr>rd = (\<lambda>t. second_base (rd this t)),
      wr = (\<lambda>e t. wr this ((rd this t)\<lparr>second_base := e\<rparr>) t)\<rparr>"

subsection \<open>Accessors (lines 180-200)\<close>

definition first ::
  "('s, ('a, 'b) compressed_pair) reference \<Rightarrow> 's \<Rightarrow> ('s, 'a) reference \<times> 's" where
  "first this s = get (cast_first_base this) s"

definition first_const ::
  "('s, ('a, 'b) compressed_pair) const_reference \<Rightarrow> 's \<Rightarrow> ('s, 'a) const_reference \<times> 's" where
  "first_const this s = get_const (\<lambda>t. first_base (this t)) s"

definition second ::
  "('s, ('a, 'b) compressed_pair) reference \<Rightarrow> 's \<Rightarrow> ('s, 'b) reference \<times> 's" where
  "second this s = get (cast_second_base this) s"

definition second_const ::
  "('s, ('a, 'b) compressed_pair) const_reference \<Rightarrow> 's \<Rightarrow> ('s, 'b) const_reference \<times> 's" where
  "second_const this s = get_const (\<lambda>t. second_base (this t)) s"

subsection \<open>Constructors and assignment (lines 118-174)\<close>

text \<open>
  A constructor initialises the object that \<open>this\<close> refers to. The default constructor
  takes part in overload resolution only when both element types are default
  constructible; \<open>None\<close> is the program that does not compile.
\<close>

definition is_default_constructible_v :: "'a option \<Rightarrow> bool" where
  "is_default_constructible_v dflt = (case dflt of None \<Rightarrow> False | Some d \<Rightarrow> True)"

definition compressed_pair_default ::
  "bool \<Rightarrow> bool \<Rightarrow> 'a option \<Rightarrow> 'b option \<Rightarrow>
   ('s, ('a, 'b) compressed_pair) reference \<Rightarrow> 's \<Rightarrow> 's option" where
  "compressed_pair_default ebco1 ebco2 dflt1 dflt2 this s =
     (if is_default_constructible_v dflt1 \<and> is_default_constructible_v dflt2 then
        (case compressed_pair_element_default ebco1 dflt1 of
           None \<Rightarrow> None
         | Some f \<Rightarrow>
             (case compressed_pair_element_default ebco2 dflt2 of
                None \<Rightarrow> None
              | Some g \<Rightarrow> Some (wr this \<lparr>first_base = f, second_base = g\<rparr> s)))
      else None)"

definition compressed_pair_copy ::
  "('s, ('a, 'b) compressed_pair) reference \<Rightarrow>
   ('s, ('a, 'b) compressed_pair) const_reference \<Rightarrow> 's \<Rightarrow> 's" where
  "compressed_pair_copy this other s =
     wr this \<lparr>first_base = element_copy (first_base (other s)),
              second_base = element_copy (second_base (other s))\<rparr> s"

definition compressed_pair_values ::
  "bool \<Rightarrow> bool \<Rightarrow> ('x \<Rightarrow> 'a) \<Rightarrow> ('y \<Rightarrow> 'b) \<Rightarrow>
   ('s, ('a, 'b) compressed_pair) reference \<Rightarrow> 'x \<Rightarrow> 'y \<Rightarrow> 's \<Rightarrow> 's" where
  "compressed_pair_values ebco1 ebco2 conv1 conv2 this arg other s =
     wr this \<lparr>first_base = compressed_pair_element_forward ebco1 conv1 arg,
              second_base = compressed_pair_element_forward ebco2 conv2 other\<rparr> s"

definition compressed_pair_piecewise ::
  "bool \<Rightarrow> bool \<Rightarrow> ('x argument list \<Rightarrow> 'a option) \<Rightarrow> ('y argument list \<Rightarrow> 'b option) \<Rightarrow>
   ('s, ('a, 'b) compressed_pair) reference \<Rightarrow> 'x component list \<Rightarrow> 'y component list \<Rightarrow>
   's \<Rightarrow> 's option" where
  "compressed_pair_piecewise ebco1 ebco2 init1 init2 this args other s =
     (case compressed_pair_element_piecewise ebco1 init1 args (index_sequence_for args) of
        None \<Rightarrow> None
      | Some f \<Rightarrow>
          (case compressed_pair_element_piecewise ebco2 init2 other (index_sequence_for other) of
             None \<Rightarrow> None
           | Some g \<Rightarrow> Some (wr this \<lparr>first_base = f, second_base = g\<rparr> s)))"

definition copy_assignment ::
  "('s, ('a, 'b) compressed_pair) reference \<Rightarrow>
   ('s, ('a, 'b) compressed_pair) const_reference \<Rightarrow> 's \<Rightarrow> 's" where
  "copy_assignment this other s =
     (let f = element_assign (first_base (rd this s)) (first_base (other s));
          s1 = wr (cast_first_base this) f s;
          g = element_assign (second_base (rd this s1)) (second_base (other s1));
          s2 = wr (cast_second_base this) g s1
      in s2)"

subsection \<open>Swap (lines 206-210 and 231-234)\<close>

definition swap ::
  "('s, ('a, 'b) compressed_pair) reference \<Rightarrow> ('s, ('a, 'b) compressed_pair) reference \<Rightarrow>
   's \<Rightarrow> 's" where
  "swap this other s =
     (let (a, s1) = first this s;
          (b, s2) = first other s1;
          s3 = std_swap a b s2;
          (c, s4) = second this s3;
          (d, s5) = second other s4
      in std_swap c d s5)"

text \<open>The free function \<^verbatim>\<open>swap(lhs, rhs)\<close> of namespace \<^verbatim>\<open>entt\<close>.\<close>

definition swap_free ::
  "('s, ('a, 'b) compressed_pair) reference \<Rightarrow> ('s, ('a, 'b) compressed_pair) reference \<Rightarrow>
   's \<Rightarrow> 's" where
  "swap_free lhs rhs s = swap lhs rhs s"

section \<open>Pair objects in a store\<close>

text \<open>
  The program state of the properties below: a store that holds a pair object at every
  address. \<open>obj p\<close> is the reference to the object at address \<open>p\<close>; two references are
  bound to the same object exactly when the addresses are equal. \<open>first_value p s\<close> is
  what \<^verbatim>\<open>p.first()\<close> reads in state \<open>s\<close>.
\<close>

type_synonym addr = nat

type_synonym ('a, 'b) store = "addr \<Rightarrow> ('a, 'b) compressed_pair"

definition obj :: "addr \<Rightarrow> (('a, 'b) store, ('a, 'b) compressed_pair) reference" where
  "obj p = \<lparr>rd = (\<lambda>s. s p), wr = (\<lambda>x s. s(p := x))\<rparr>"

definition first_value :: "addr \<Rightarrow> ('a, 'b) store \<Rightarrow> 'a" where
  "first_value p s = rd (fst (first (obj p) s)) s"

definition second_value :: "addr \<Rightarrow> ('a, 'b) store \<Rightarrow> 'b" where
  "second_value p s = rd (fst (second (obj p) s)) s"

definition first_const_value :: "addr \<Rightarrow> ('a, 'b) store \<Rightarrow> 'a" where
  "first_const_value p s = fst (first_const (rd (obj p)) s) s"

definition second_const_value :: "addr \<Rightarrow> ('a, 'b) store \<Rightarrow> 'b" where
  "second_const_value p s = fst (second_const (rd (obj p)) s) s"

text \<open>
  An element on its own is observed the same way: \<open>self\<close> refers to the element that is
  the whole state, and \<open>element_value e\<close> is what \<^verbatim>\<open>e.get()\<close> reads.
\<close>

definition self :: "('a compressed_pair_element, 'a compressed_pair_element) reference" where
  "self = \<lparr>rd = (\<lambda>e. e), wr = (\<lambda>x e. x)\<rparr>"

definition element_value :: "'a compressed_pair_element \<Rightarrow> 'a" where
  "element_value e = rd (fst (get self e)) e"

text \<open>
  The logical value that an element holds (the abstraction of section 3 of the
  specification: a slot holds exactly one logical value, whatever its strategy).
\<close>

primrec logical_value :: "'a compressed_pair_element \<Rightarrow> 'a" where
  "logical_value (Boxed v) = v"
| "logical_value (Merged b) = b"

text \<open>
  Stores for the worked instances: \<open>store_int_string\<close> holds pairs of an \<open>int\<close> and a
  \<open>string\<close>, both boxed; \<open>store_empty_int\<close> holds pairs whose first element is of an
  empty class (\<open>unit\<close>, merged) and whose second is a boxed \<open>int\<close>; \<open>store_int_int\<close>
  holds pairs of two boxed \<open>int\<close>s.
\<close>

definition store_int_string :: "(int, string) store" where
  "store_int_string =
     (\<lambda>p. \<lparr>first_base = Boxed 0, second_base = Boxed []\<rparr>)
       (0 := \<lparr>first_base = Boxed 1, second_base = Boxed ''x''\<rparr>,
        1 := \<lparr>first_base = Boxed 2, second_base = Boxed ''y''\<rparr>)"

definition store_empty_int :: "(unit, int) store" where
  "store_empty_int =
     (\<lambda>p. \<lparr>first_base = Merged (), second_base = Boxed 0\<rparr>)
       (0 := \<lparr>first_base = Merged (), second_base = Boxed 3\<rparr>,
        1 := \<lparr>first_base = Merged (), second_base = Boxed 4\<rparr>)"

definition store_int_int :: "(int, int) store" where
  "store_int_int = (\<lambda>p. \<lparr>first_base = Boxed 5, second_base = Boxed 6\<rparr>)"

text \<open>
  Two element types for the worked instances of piecewise construction, each seen
  through the int it holds. \<open>move_only_init\<close> is a class like \<^verbatim>\<open>std::unique_ptr<int>\<close>:
  default constructible and move constructible, with a deleted copy constructor, so it
  accepts one rvalue of its own type and no lvalue. \<open>copyable_init\<close> is \<^verbatim>\<open>int\<close>: it
  accepts one argument of either category.
\<close>

definition move_only_init :: "int argument list \<Rightarrow> int option" where
  "move_only_init xs =
     (case xs of
        [] \<Rightarrow> Some 0
      | [(Rvalue, v)] \<Rightarrow> Some v
      | _ \<Rightarrow> None)"

definition copyable_init :: "int argument list \<Rightarrow> int option" where
  "copyable_init xs =
     (case xs of
        [] \<Rightarrow> Some 0
      | [(c, v)] \<Rightarrow> Some v
      | _ \<Rightarrow> None)"

section \<open>Properties\<close>

lemma first_value_eq:
  "first_value p s = (case first_base (s p) of Boxed v \<Rightarrow> v | Merged b \<Rightarrow> b)"
  by (simp add: first_value_def first_def get_def cast_first_base_def obj_def)

lemma second_value_eq:
  "second_value p s = (case second_base (s p) of Boxed v \<Rightarrow> v | Merged b \<Rightarrow> b)"
  by (simp add: second_value_def second_def get_def cast_second_base_def obj_def)

lemma first_const_value_eq:
  "first_const_value p s = (case first_base (s p) of Boxed v \<Rightarrow> v | Merged b \<Rightarrow> b)"
  by (simp add: first_const_value_def first_const_def get_const_def obj_def)

lemma second_const_value_eq:
  "second_const_value p s = (case second_base (s p) of Boxed v \<Rightarrow> v | Merged b \<Rightarrow> b)"
  by (simp add: second_const_value_def second_const_def get_const_def obj_def)

lemmas observers = first_value_eq second_value_eq first_const_value_eq second_const_value_eq

lemmas stores = store_int_string_def store_empty_int_def store_int_int_def

lemma element_copy_same: "element_copy e = e"
  by (cases e) (simp_all add: element_copy_def copy_init_def)

lemma those_map_Some: "those (map Some xs) = Some xs"
  by (induction xs) simp_all

text \<open>The pack expansion reads the tuple at the indices of the sequence, in their order.\<close>

lemma get_pack_in_range:
  assumes "\<forall>i \<in> set Index. i < length args"
  shows "get_pack args Index = Some (map ((!) args) Index)"
proof -
  from assms have "map (\<lambda>i. std_get i args) Index = map Some (map ((!) args) Index)"
    by (simp add: std_get_def)
  then have "those (map (\<lambda>i. std_get i args) Index) = those (map Some (map ((!) args) Index))"
    by (rule arg_cong)
  then show ?thesis
    by (simp only: get_pack_def those_map_Some)
qed

lemma get_pack_index_sequence_for: "get_pack args (index_sequence_for args) = Some args"
proof -
  have "get_pack args [0..<length args] = Some (map ((!) args) [0..<length args])"
    by (rule get_pack_in_range) simp
  then show ?thesis
    by (simp add: index_sequence_for_def map_nth)
qed

text \<open>A swap touches no object but the two it is applied to.\<close>

lemma swap_frame:
  assumes "r \<noteq> p" and "r \<noteq> q"
  shows "swap (obj p) (obj q) s r = s r"
  using assms
  by (simp add: swap_def std_swap_def first_def second_def get_def cast_first_base_def
      cast_second_base_def obj_def Let_def)

text \<open>
  The two-value constructor hands each argument to the one-argument constructor of the
  matching element type.
\<close>

lemma compressed_pair_values_reads:
  "first_value p (compressed_pair_values ebco1 ebco2 conv1 conv2 (obj p) arg other s) = conv1 arg \<and>
   second_value p (compressed_pair_values ebco1 ebco2 conv1 conv2 (obj p) arg other s) = conv2 other"
  by (simp add: observers compressed_pair_values_def compressed_pair_element_forward_def
      boxed_forward_def merged_forward_def obj_def)

text \<open>
  C1 (value identity). A pair constructed from the two values \<open>a\<close> of type \<^verbatim>\<open>First\<close>
  and \<open>b\<close> of type \<^verbatim>\<open>Second\<close> satisfies \<^verbatim>\<open>first() == a\<close> and \<^verbatim>\<open>second() == b\<close>, through
  the mutable and the const accessors, whichever template the two elements select.
\<close>

theorem value_identity:
  "first_value p (compressed_pair_values ebco1 ebco2 copy_init copy_init (obj p) a b s) = a \<and>
   second_value p (compressed_pair_values ebco1 ebco2 copy_init copy_init (obj p) a b s) = b \<and>
   first_const_value p (compressed_pair_values ebco1 ebco2 copy_init copy_init (obj p) a b s) = a \<and>
   second_const_value p (compressed_pair_values ebco1 ebco2 copy_init copy_init (obj p) a b s) = b"
  by (simp add: observers compressed_pair_values_def compressed_pair_element_forward_def
      boxed_forward_def merged_forward_def copy_init_def obj_def)

theorem value_identity_witness:
  "first_value 2 (compressed_pair_values False False copy_init copy_init (obj 2)
      (42::int) ''ab'' store_int_string) = 42 \<and>
   second_value 2 (compressed_pair_values False False copy_init copy_init (obj 2)
      (42::int) ''ab'' store_int_string) = ''ab'' \<and>
   first_value 2 (compressed_pair_values True False copy_init copy_init (obj 2)
      () (7::int) store_empty_int) = () \<and>
   second_value 2 (compressed_pair_values True False copy_init copy_init (obj 2)
      () (7::int) store_empty_int) = 7"
  using value_identity [where p = 2 and ?ebco1.0 = False and ?ebco2.0 = False
      and a = "42::int" and b = "''ab''" and s = store_int_string]
    value_identity [where p = 2 and ?ebco1.0 = True and ?ebco2.0 = False
      and a = "()" and b = "7::int" and s = store_empty_int]
  by simp

text \<open>
  C2 (swap). After \<^verbatim>\<open>p.swap(q)\<close>, \<^verbatim>\<open>p.first()\<close> is what \<^verbatim>\<open>q.first()\<close> was and
  \<^verbatim>\<open>p.second()\<close> is what \<^verbatim>\<open>q.second()\<close> was, and the other way round. The store is
  arbitrary: each of the four base class subobjects concerned may be boxed or merged, and
  \<open>p\<close> and \<open>q\<close> may be the same object.
\<close>

theorem swap_exchanges:
  "first_value p (swap (obj p) (obj q) s) = first_value q s \<and>
   second_value p (swap (obj p) (obj q) s) = second_value q s \<and>
   first_value q (swap (obj p) (obj q) s) = first_value p s \<and>
   second_value q (swap (obj p) (obj q) s) = second_value p s"
  by (auto simp add: observers swap_def std_swap_def first_def second_def get_def
      cast_first_base_def cast_second_base_def obj_def copy_init_def Let_def
      split: compressed_pair_element.splits)

theorem swap_exchanges_witness:
  "first_value 0 (swap (obj 0) (obj 1) store_int_string) = 2 \<and>
   second_value 0 (swap (obj 0) (obj 1) store_int_string) = ''y'' \<and>
   first_value 1 (swap (obj 0) (obj 1) store_int_string) = 1 \<and>
   second_value 1 (swap (obj 0) (obj 1) store_int_string) = ''x'' \<and>
   first_value 0 (swap (obj 0) (obj 1) store_empty_int) = () \<and>
   second_value 0 (swap (obj 0) (obj 1) store_empty_int) = 4 \<and>
   first_value 1 (swap (obj 0) (obj 1) store_empty_int) = () \<and>
   second_value 1 (swap (obj 0) (obj 1) store_empty_int) = 3"
  using swap_exchanges [where p = 0 and q = 1 and s = store_int_string]
    swap_exchanges [where p = 0 and q = 1 and s = store_empty_int]
  by (simp add: observers stores)

text \<open>
  C3 (free swap). The free function \<^verbatim>\<open>swap(a, b)\<close> and the member call \<^verbatim>\<open>a.swap(b)\<close>
  are the same state transformer, for every two references and every kind of state.
\<close>

theorem swap_free_is_member_swap:
  "swap_free lhs rhs = swap lhs rhs"
  by (rule ext) (simp add: swap_free_def)

theorem swap_free_is_member_swap_witness:
  "swap_free (obj 0) (obj 1) store_int_string = swap (obj 0) (obj 1) store_int_string \<and>
   first_value 0 (swap_free (obj 0) (obj 1) store_int_string) = 2 \<and>
   second_value 1 (swap_free (obj 0) (obj 1) store_int_string) = ''x''"
  using swap_free_is_member_swap [where lhs = "obj 0" and rhs = "obj 1 :: ((int, string) store, _) reference"]
  by (simp add: observers stores swap_def std_swap_def first_def second_def get_def
      cast_first_base_def cast_second_base_def obj_def copy_init_def Let_def)

text \<open>
  What the piecewise constructor does: it is well-formed exactly when each element type
  has a constructor for the components of its tuple passed as lvalues, in the order of the
  tuple, and the pair it builds is the one that the two-value constructor builds from the
  two objects so constructed.
\<close>

lemma compressed_pair_piecewise_lvalues:
  "compressed_pair_piecewise ebco1 ebco2 init1 init2 (obj p) args other s =
     (case init1 (map named_lvalue args) of
        None \<Rightarrow> None
      | Some a \<Rightarrow>
          (case init2 (map named_lvalue other) of
             None \<Rightarrow> None
           | Some b \<Rightarrow>
               Some (compressed_pair_values ebco1 ebco2 copy_init copy_init (obj p) a b s)))"
  by (simp add: compressed_pair_piecewise_def compressed_pair_element_piecewise_def
      boxed_piecewise_def merged_piecewise_def get_pack_index_sequence_for
      compressed_pair_values_def compressed_pair_element_forward_def
      boxed_forward_def merged_forward_def copy_init_def split: option.splits)

lemma compressed_pair_piecewise_reads:
  assumes "init1 (map named_lvalue args) = Some a" and "init2 (map named_lvalue other) = Some b"
  shows "\<exists>s'. compressed_pair_piecewise ebco1 ebco2 init1 init2 (obj p) args other s = Some s' \<and>
           first_value p s' = a \<and> second_value p s' = b"
  using assms
  by (simp add: compressed_pair_piecewise_lvalues compressed_pair_values_reads copy_init_def)

text \<open>
  C4 (piecewise construction). The claim: for every two argument sequences, each is
  forwarded component by component to the constructor of its element, and \<^verbatim>\<open>first()\<close>
  and \<^verbatim>\<open>second()\<close> are \<^verbatim>\<open>First\<close> and \<^verbatim>\<open>Second\<close> constructed from them. The code passes
  every component as an lvalue instead. For \<^verbatim>\<open>First\<close> a move-only class and the
  sequences \<^verbatim>\<open>std::forward_as_tuple(std::move(x))\<close> with \<open>x\<close> holding 1 and
  \<^verbatim>\<open>std::make_tuple(2)\<close>, both elements are constructible from their forwarded
  sequences (to the objects holding 1 and 2), yet the piecewise constructor is ill-formed
  and builds no pair; with a copyable first element in place of the move-only one it builds
  the pair that reads 1 and 2.
\<close>

theorem piecewise_passes_lvalues_not_forwarded:
  "move_only_init (map std_forward [(Rvalue_reference, 1)]) = Some 1 \<and>
   copyable_init (map std_forward [(Object, 2)]) = Some 2 \<and>
   compressed_pair_piecewise False False move_only_init copyable_init (obj 0)
     [(Rvalue_reference, 1)] [(Object, 2)] store_int_int = None \<and>
   (\<exists>s'. compressed_pair_piecewise False False copyable_init copyable_init (obj 0)
            [(Rvalue_reference, 1)] [(Object, 2)] store_int_int = Some s' \<and>
          first_value 0 s' = 1 \<and> second_value 0 s' = 2)"
  by (simp add: compressed_pair_piecewise_lvalues compressed_pair_values_reads
      move_only_init_def copyable_init_def named_lvalue_def std_forward_def copy_init_def)

text \<open>
  C5 (copy). Copy construction of \<open>p\<close> from \<open>q\<close> and copy assignment \<^verbatim>\<open>p = q\<close> leave
  \<open>p\<close> with \<^verbatim>\<open>first()\<close> and \<^verbatim>\<open>second()\<close> equal to those of \<open>q\<close>, and leave the object
  \<open>q\<close> as it was.
\<close>

theorem copy_preserves:
  "first_value p (compressed_pair_copy (obj p) (rd (obj q)) s) = first_value q s \<and>
   second_value p (compressed_pair_copy (obj p) (rd (obj q)) s) = second_value q s \<and>
   compressed_pair_copy (obj p) (rd (obj q)) s q = s q \<and>
   first_value p (copy_assignment (obj p) (rd (obj q)) s) = first_value q s \<and>
   second_value p (copy_assignment (obj p) (rd (obj q)) s) = second_value q s \<and>
   copy_assignment (obj p) (rd (obj q)) s q = s q"
  by (auto simp add: observers compressed_pair_copy_def copy_assignment_def element_copy_same
      element_assign_def cast_first_base_def cast_second_base_def obj_def copy_init_def Let_def
      split: compressed_pair_element.splits)

theorem copy_preserves_witness:
  "first_value 2 (compressed_pair_copy (obj 2) (rd (obj 1)) store_int_string) = 2 \<and>
   second_value 2 (compressed_pair_copy (obj 2) (rd (obj 1)) store_int_string) = ''y'' \<and>
   first_value 1 (compressed_pair_copy (obj 2) (rd (obj 1)) store_int_string) = 2 \<and>
   second_value 1 (compressed_pair_copy (obj 2) (rd (obj 1)) store_int_string) = ''y'' \<and>
   first_value 0 (copy_assignment (obj 0) (rd (obj 1)) store_int_string) = 2 \<and>
   second_value 0 (copy_assignment (obj 0) (rd (obj 1)) store_int_string) = ''y'' \<and>
   first_value 1 (copy_assignment (obj 0) (rd (obj 1)) store_int_string) = 2 \<and>
   second_value 1 (copy_assignment (obj 0) (rd (obj 1)) store_int_string) = ''y''"
  using copy_preserves [where p = 2 and q = 1 and s = store_int_string]
    copy_preserves [where p = 0 and q = 1 and s = store_int_string]
  by (simp add: observers stores)

text \<open>
  C6 (default construction). The default constructor is available exactly when both
  \<^verbatim>\<open>First\<close> and \<^verbatim>\<open>Second\<close> are default constructible, and the pair it then builds holds
  the default value of \<^verbatim>\<open>First\<close> in \<^verbatim>\<open>first()\<close> and that of \<^verbatim>\<open>Second\<close> in \<^verbatim>\<open>second()\<close>.
\<close>

theorem default_construction:
  "(\<exists>s'. compressed_pair_default ebco1 ebco2 dflt1 dflt2 (obj p) s = Some s') =
     (is_default_constructible_v dflt1 \<and> is_default_constructible_v dflt2) \<and>
   (\<exists>s'. compressed_pair_default ebco1 ebco2 (Some x) (Some y) (obj p) s = Some s' \<and>
      first_value p s' = x \<and> second_value p s' = y)"
  by (auto simp add: observers compressed_pair_default_def compressed_pair_element_default_def
      boxed_default_def merged_default_def is_default_constructible_v_def obj_def
      split: option.splits)

theorem default_construction_witness:
  "(\<exists>s'. compressed_pair_default False False (Some 0) (Some []) (obj 2) store_int_string = Some s' \<and>
      first_value 2 s' = 0 \<and> second_value 2 s' = []) \<and>
   compressed_pair_default False False None (Some []) (obj 2) store_int_string = None \<and>
   compressed_pair_default False False (Some 0) None (obj 2) store_int_string = None"
  using default_construction [where ?ebco1.0 = False and ?ebco2.0 = False
      and ?dflt1.0 = None and ?dflt2.0 = "Some []" and x = 0 and y = "[]"
      and p = 2 and s = store_int_string]
    default_construction [where ?ebco1.0 = False and ?ebco2.0 = False
      and ?dflt1.0 = "Some 0" and ?dflt2.0 = None and x = 0 and y = "[]"
      and p = 2 and s = store_int_string]
  by (simp add: is_default_constructible_v_def)

text \<open>
  C7 (layout transparency). The primary template and the specialisation for
  \<^verbatim>\<open>is_ebco_eligible_v<Type>\<close> cannot be told apart through \<^verbatim>\<open>get()\<close>: built from the
  same inputs by the same form of constructor (default, one forwarded argument, argument
  tuple with index sequence), both are available together and \<^verbatim>\<open>get()\<close> reads the same
  value; the same holds after an assignment through the reference that \<^verbatim>\<open>get()\<close>
  returns, for the const \<^verbatim>\<open>get()\<close>, and for the accessors of a pair built with either
  choice of templates.
\<close>

theorem layout_transparency:
  "element_value (boxed_forward conv x) = element_value (merged_forward conv x) \<and>
   map_option element_value (boxed_default dflt) =
     map_option element_value (merged_default dflt) \<and>
   map_option element_value (boxed_piecewise init args Index) =
     map_option element_value (merged_piecewise init args Index) \<and>
   element_value (wr (fst (get self (Boxed u))) v (Boxed u)) =
     element_value (wr (fst (get self (Merged u))) v (Merged u)) \<and>
   fst (get_const (rd self) (Boxed u)) (Boxed u) =
     fst (get_const (rd self) (Merged u)) (Merged u) \<and>
   first_value p (compressed_pair_values True ebco2 conv conv2 (obj p) x y s) =
     first_value p (compressed_pair_values False ebco2 conv conv2 (obj p) x y s) \<and>
   second_value p (compressed_pair_values ebco1 True conv conv2 (obj p) x y s) =
     second_value p (compressed_pair_values ebco1 False conv conv2 (obj p) x y s)"
  by (auto simp add: observers element_value_def get_def get_const_def self_def
      boxed_forward_def merged_forward_def boxed_default_def merged_default_def
      boxed_piecewise_def merged_piecewise_def compressed_pair_values_def
      compressed_pair_element_forward_def obj_def split: option.splits)

theorem layout_transparency_witness:
  "element_value (boxed_forward int (3::nat)) = 3 \<and>
   element_value (merged_forward int (3::nat)) = 3 \<and>
   map_option element_value (boxed_default (Some (0::int))) = Some 0 \<and>
   map_option element_value (merged_default (Some (0::int))) = Some 0 \<and>
   map_option element_value
     (boxed_piecewise (\<lambda>xs. Some (concat (map snd xs))) [(Object, ''x''), (Object, ''y'')] [0, 1]) =
     Some ''xy'' \<and>
   map_option element_value
     (merged_piecewise (\<lambda>xs. Some (concat (map snd xs))) [(Object, ''x''), (Object, ''y'')] [0, 1]) =
     Some ''xy'' \<and>
   element_value (wr (fst (get self (Boxed (1::int)))) 9 (Boxed 1)) = 9 \<and>
   element_value (wr (fst (get self (Merged (1::int)))) 9 (Merged 1)) = 9"
  using layout_transparency [where conv = int and x = "3::nat" and dflt = "Some (0::int)"
      and init = "\<lambda>xs. Some (concat (map snd xs))"
      and args = "[(Object, ''x''), (Object, ''y'')]" and Index = "[0, 1]"
      and u = "1::int" and v = "9::int" and p = 0 and ?ebco1.0 = False and ?ebco2.0 = False
      and ?conv2.0 = "copy_init :: string \<Rightarrow> string" and y = "''z''" and s = store_int_string]
  by (simp add: element_value_def get_def self_def merged_forward_def merged_default_def
      merged_piecewise_def get_pack_def std_get_def named_lvalue_def)

text \<open>
  C9 (accessors). \<^verbatim>\<open>first()\<close> and \<^verbatim>\<open>second()\<close>, mutable and const, return in every
  state and for every object (they have no failure result) and hand the state on
  unchanged. What they return is a reference to the logical value of the corresponding
  base class subobject, not a copy of it: in every later state \<open>t\<close> the reference reads
  the logical value that the subobject holds in \<open>t\<close>, and a write through the mutable
  reference in any state \<open>u\<close> sets that logical value, keeps the other element of the
  pair and changes no other object.
\<close>

theorem accessors_pure:
  "snd (first this s) = s \<and> snd (second this s) = s \<and>
   snd (first_const (rd this) s) = s \<and> snd (second_const (rd this) s) = s \<and>
   rd (fst (first this s)) t = logical_value (first_base (rd this t)) \<and>
   rd (fst (second this s)) t = logical_value (second_base (rd this t)) \<and>
   fst (first_const (rd this) s) t = logical_value (first_base (rd this t)) \<and>
   fst (second_const (rd this) s) t = logical_value (second_base (rd this t)) \<and>
   logical_value (first_base (wr (fst (first (obj p) r)) x u p)) = x \<and>
   second_base (wr (fst (first (obj p) r)) x u p) = second_base (u p) \<and>
   (wr (fst (first (obj p) r)) x u)(p := u p) = u \<and>
   logical_value (second_base (wr (fst (second (obj p) r)) y u p)) = y \<and>
   first_base (wr (fst (second (obj p) r)) y u p) = first_base (u p) \<and>
   (wr (fst (second (obj p) r)) y u)(p := u p) = u"
  by (auto simp add: first_def second_def first_const_def second_const_def get_def
      get_const_def cast_first_base_def cast_second_base_def obj_def
      split: compressed_pair_element.splits)

theorem accessors_pure_witness:
  "snd (first (obj 0) store_empty_int) = store_empty_int \<and>
   snd (second (obj 0) store_empty_int) = store_empty_int \<and>
   snd (first_const (rd (obj 0)) store_empty_int) = store_empty_int \<and>
   snd (second_const (rd (obj 0)) store_empty_int) = store_empty_int \<and>
   rd (fst (second (obj 0) store_empty_int)) store_empty_int = 3 \<and>
   fst (second_const (rd (obj 0)) store_empty_int) store_empty_int = 3 \<and>
   rd (fst (second (obj 0) store_empty_int)) (swap (obj 0) (obj 1) store_empty_int) = 4 \<and>
   fst (second_const (rd (obj 0)) store_empty_int) (swap (obj 0) (obj 1) store_empty_int) = 4 \<and>
   rd (fst (first (obj 0) store_int_int))
     (wr (fst (first (obj 0) store_int_int)) 8 store_int_int) = 8 \<and>
   fst (first_const (rd (obj 0)) store_int_int)
     (wr (fst (first (obj 0) store_int_int)) 8 store_int_int) = 8 \<and>
   rd (fst (second (obj 0) store_int_int))
     (wr (fst (first (obj 0) store_int_int)) 8 store_int_int) = 6"
  using accessors_pure [where this = "obj 0" and s = store_empty_int and t = store_empty_int
      and p = 0 and r = store_int_int and u = store_int_int and x = 8 and y = 9]
    accessors_pure [where this = "obj 0" and s = store_empty_int
      and t = "swap (obj 0) (obj 1) store_empty_int"
      and p = 0 and r = store_int_int and u = store_int_int and x = 8 and y = 9]
    accessors_pure [where this = "obj 0" and s = store_int_int
      and t = "wr (fst (first (obj 0) store_int_int)) 8 store_int_int"
      and p = 0 and r = store_int_int and u = store_int_int and x = 8 and y = 9]
  by (simp add: stores obj_def swap_def std_swap_def first_def second_def get_def
      cast_first_base_def cast_second_base_def copy_init_def Let_def)

text \<open>
  C10 (slot independence). An assignment through the reference returned by \<^verbatim>\<open>first()\<close>
  sets \<^verbatim>\<open>first()\<close> and leaves \<^verbatim>\<open>second()\<close> as it was; an assignment through the
  reference returned by \<^verbatim>\<open>second()\<close> sets \<^verbatim>\<open>second()\<close> and leaves \<^verbatim>\<open>first()\<close> as it
  was. The element types are arbitrary, so they may be the same type.
\<close>

theorem slot_independence:
  "second_value p (wr (fst (first (obj p) s)) x s) = second_value p s \<and>
   first_value p (wr (fst (first (obj p) s)) x s) = x \<and>
   first_value p (wr (fst (second (obj p) s)) y s) = first_value p s \<and>
   second_value p (wr (fst (second (obj p) s)) y s) = y"
  by (auto simp add: observers first_def second_def get_def cast_first_base_def
      cast_second_base_def obj_def split: compressed_pair_element.splits)

theorem slot_independence_witness:
  "second_value 0 (wr (fst (first (obj 0) store_int_int)) 8 store_int_int) = 6 \<and>
   first_value 0 (wr (fst (first (obj 0) store_int_int)) 8 store_int_int) = 8 \<and>
   first_value 0 (wr (fst (second (obj 0) store_int_int)) 9 store_int_int) = 5 \<and>
   second_value 0 (wr (fst (second (obj 0) store_int_int)) 9 store_int_int) = 9"
  using slot_independence [where p = 0 and x = 8 and y = 9 and s = store_int_int]
  by (simp add: observers stores)

end
